theory Spec2Isabelle
  imports Main
begin

section \<open>The ComboBox interaction controller (src/combobox/index.ts)\<close>

text \<open>
  The class \<open>ComboBox\<close> keeps five private fields of interaction state and reacts to
  events of the text input, of the two buttons, of the dropdown and of the listbox. Each
  method becomes a function from the state to the new state. Everything a method does to
  the outside (a callback of the owner, \<open>invalidate\<close>, \<open>focus\<close>, \<open>preventDefault\<close>,
  \<open>stopPropagation\<close>) is appended to a trace kept in the state, in the order of the
  source, so that "the callback is invoked once" is a statement about the trace.

  Naming: a private member \<open>_x\<close> of the class is written \<open>cb_x\<close> (an Isabelle name
  cannot start with an underscore, and \<open>open\<close> is a keyword); the properties keep the
  names of \<open>ComboboxProperties\<close>, except \<open>value\<close>, a keyword, written \<open>value_prop\<close>.
\<close>

subsection \<open>JavaScript values\<close>

text \<open>
  An optional boolean (\<open>disabled?: boolean\<close>, \<open>_open: boolean | undefined\<close>) is a
  \<open>bool option\<close>, \<open>None\<close> for \<open>undefined\<close>. In a condition only \<open>true\<close> is truthy.
\<close>

definition truthy :: "bool option \<Rightarrow> bool" where
  "truthy b = (b = Some True)"

text \<open>
  \<open>results[i]\<close>: the element when \<open>i\<close> is an index of the array, \<open>undefined\<close>
  (\<open>None\<close>) otherwise, also for a negative \<open>i\<close>.
\<close>

definition js_index :: "'r list \<Rightarrow> int \<Rightarrow> 'r option" where
  "js_index xs i = (if 0 \<le> i \<and> i < int (length xs) then Some (xs ! nat i) else None)"

text \<open>
  \<open>a % b\<close> on integers: the remainder of the truncating division, with the sign of the
  dividend. (The source takes it only after \<open>total = 0\<close> has returned.)
\<close>

definition js_rem :: "int \<Rightarrow> int \<Rightarrow> int" where
  "js_rem a b = (if a < 0 then - (\<bar>a\<bar> mod \<bar>b\<bar>) else a mod \<bar>b\<bar>)"

text \<open>
  A template literal \<open>`${x}`\<close> converts \<open>x\<close> to a string. What the conversion gives for
  a result (of type \<open>any\<close>, possibly \<open>undefined\<close>) and for a \<open>DNode\<close> is the language's
  and the framework's business: both conversions are parameters.
\<close>

record ('r, 'd) template =
  resultString :: "'r option \<Rightarrow> string"
  dnodeString :: "'d \<Rightarrow> string"

text \<open>
  The key codes \<open>Keys.Up\<close>, ... are constants of another module, \<open>../common/util\<close>;
  the handler compares the pressed key with them, so they are a parameter of the
  handler.
\<close>

record keys =
  Keys_Up :: int
  Keys_Down :: int
  Keys_Escape :: int
  Keys_Enter :: int
  Keys_Space :: int
  Keys_Home :: int
  Keys_End :: int

subsection \<open>Properties\<close>

datatype valid_prop = ValidBool bool | ValidObj "bool option" "string option"

text \<open>
  The properties the controller reads. An optional function of the owner that returns a
  value is an \<open>option\<close> of a function; it receives \<open>results[i]\<close>, which may be
  \<open>undefined\<close>. An optional callback returns nothing: the field says whether the owner
  supplied it, and its invocation is an entry of the trace.
\<close>

record ('r, 'd) props =
  clearable :: "bool option"
  disabled :: "bool option"
  getResultLabel :: "('r option \<Rightarrow> 'd) option"
  getResultValue :: "('r option \<Rightarrow> string) option"
  helperText :: "string option"
  isResultDisabled :: "('r option \<Rightarrow> bool) option"
  onBlur :: bool
  onFocus :: bool
  onMenuChange :: bool
  onOut :: bool
  onOver :: bool
  onRequestResults :: bool
  onResultSelect :: bool
  onValue :: bool
  openOnFocus :: "bool option"
  readOnly :: "bool option"
  results :: "'r list option"
  valid :: "valid_prop option"
  value_prop :: "string option"

text \<open>\<open>const { results = [] } = this.properties\<close>\<close>

definition results_or_empty :: "('r, 'd) props \<Rightarrow> 'r list" where
  "results_or_empty p = (case results p of None \<Rightarrow> [] | Some xs \<Rightarrow> xs)"

subsection \<open>State and effects\<close>

datatype 'r effect =
    Invalidate
  | Focus
  | PreventDefault
  | StopPropagation
  | OnValue string
  | OnResultSelect "'r option"
  | OnMenuChange bool
  | OnRequestResults
  | OnBlur
  | OnFocus
  | OnOver
  | OnOut

record 'r combobox =
  cb_activeIndex :: int
  cb_ignoreBlur :: "bool option"
  cb_menuHasVisualFocus :: bool
  cb_open :: "bool option"
  cb_wasOpen :: "bool option"
  trace :: "'r effect list"

text \<open>The field initialisers of the class; nothing has happened yet.\<close>

definition initial :: "'r combobox" where
  "initial = \<lparr>cb_activeIndex = 0, cb_ignoreBlur = None, cb_menuHasVisualFocus = False,
              cb_open = None, cb_wasOpen = None, trace = []\<rparr>"

definition emit :: "'r effect \<Rightarrow> 'r combobox \<Rightarrow> 'r combobox" where
  "emit e s = s\<lparr>trace := trace s @ [e]\<rparr>"

text \<open>\<open>cb && cb(...)\<close>\<close>

definition call :: "bool \<Rightarrow> 'r effect \<Rightarrow> 'r combobox \<Rightarrow> 'r combobox" where
  "call supplied e s = (if supplied then emit e s else s)"

datatype Operation = increase | decrease

fun operation_value :: "Operation \<Rightarrow> int" where
  "operation_value increase = 1"
| "operation_value decrease = - 1"

subsection \<open>The methods\<close>

definition cb_closeMenu :: "'r combobox \<Rightarrow> 'r combobox" where
  "cb_closeMenu s = emit Invalidate (s\<lparr>cb_open := Some False\<rparr>)"

text \<open>
  \<open>_getResultValue\<close>: the destructuring default puts \<open>getResultLabel\<close> in the place of
  an absent \<open>getResultValue\<close>; the function found, if any, is applied and its value
  converted by the template literal (the identity on what \<open>getResultValue\<close> returns, a
  string).
\<close>

definition cb_getResultValue ::
  "('r, 'd) template \<Rightarrow> ('r, 'd) props \<Rightarrow> 'r option \<Rightarrow> string" where
  "cb_getResultValue t p result =
     (let getResultValue' =
        (case getResultValue p of
           Some f \<Rightarrow> Some f
         | None \<Rightarrow> map_option (\<lambda>l r. dnodeString t (l r)) (getResultLabel p))
      in case getResultValue' of
           Some f \<Rightarrow> f result
         | None \<Rightarrow> resultString t result)"

definition cb_openMenu :: "('r, 'd) props \<Rightarrow> 'r combobox \<Rightarrow> 'r combobox" where
  "cb_openMenu p s =
     emit Invalidate
       (call (onRequestResults p) OnRequestResults
          (s\<lparr>cb_activeIndex := 0, cb_open := Some True\<rparr>))"

definition cb_onArrowClick :: "('r, 'd) props \<Rightarrow> 'r combobox \<Rightarrow> 'r combobox" where
  "cb_onArrowClick p s =
     (let s1 = emit StopPropagation s
      in if \<not> truthy (disabled p) \<and> \<not> truthy (readOnly p)
         then cb_openMenu p (emit Focus s1)
         else s1)"


definition cb_onInputValue :: "('r, 'd) props \<Rightarrow> string \<Rightarrow> 'r combobox \<Rightarrow> 'r combobox" where
  "cb_onInputValue p v s =
     (let s1 = call (onValue p) (OnValue v) s
      in if \<not> truthy (disabled p) \<and> \<not> truthy (readOnly p) then cb_openMenu p s1 else s1)"

definition cb_onInputBlur :: "('r, 'd) props \<Rightarrow> 'r combobox \<Rightarrow> 'r combobox" where
  "cb_onInputBlur p s =
     (if truthy (cb_ignoreBlur s) then s\<lparr>cb_ignoreBlur := Some False\<rparr>
      else cb_closeMenu (call (onBlur p) OnBlur s))"


definition cb_selectIndex ::
  "('r, 'd) template \<Rightarrow> ('r, 'd) props \<Rightarrow> int \<Rightarrow> 'r combobox \<Rightarrow> 'r combobox" where
  "cb_selectIndex t p index s =
     (let rs = results_or_empty p;
          s1 = cb_closeMenu (emit Focus s);
          s2 = call (onResultSelect p) (OnResultSelect (js_index rs index)) s1
      in call (onValue p) (OnValue (cb_getResultValue t p (js_index rs index))) s2)"

definition cb_moveActiveIndex ::
  "('r, 'd) props \<Rightarrow> Operation \<Rightarrow> 'r combobox \<Rightarrow> 'r combobox" where
  "cb_moveActiveIndex p operation s =
     (let rs = results_or_empty p
      in if length rs = 0 then emit Invalidate (s\<lparr>cb_activeIndex := 0\<rparr>)
         else
           (let total = int (length rs);
                nextIndex = js_rem (cb_activeIndex s + operation_value operation + total) total
            in emit Invalidate (s\<lparr>cb_activeIndex := nextIndex\<rparr>)))"

text \<open>\<open>isResultDisabled = () => false\<close> when the owner gives no predicate.\<close>

definition isResultDisabled_or_false :: "('r, 'd) props \<Rightarrow> 'r option \<Rightarrow> bool" where
  "isResultDisabled_or_false p r = (case isResultDisabled p of None \<Rightarrow> False | Some f \<Rightarrow> f r)"

text \<open>
  \<open>_onInputKey\<close>: the assignment to \<open>_menuHasVisualFocus\<close> stands before the
  \<open>switch\<close>; the \<open>switch\<close> takes the first label equal to the key; \<open>Enter\<close> falls
  through to \<open>Space\<close>.
\<close>

definition cb_onInputKey ::
  "keys \<Rightarrow> ('r, 'd) template \<Rightarrow> ('r, 'd) props \<Rightarrow> int \<Rightarrow> 'r combobox \<Rightarrow> 'r combobox" where
  "cb_onInputKey k t p key s =
     (let rs = results_or_empty p;
          s0 = s\<lparr>cb_menuHasVisualFocus := True\<rparr>
      in if key = Keys_Up k then cb_moveActiveIndex p decrease (emit PreventDefault s0)
         else if key = Keys_Down k then
           (let s1 = emit PreventDefault s0
            in if \<not> truthy (cb_open s1) \<and> \<not> truthy (disabled p) \<and> \<not> truthy (readOnly p)
               then cb_openMenu p s1
               else if truthy (cb_open s1) then cb_moveActiveIndex p increase s1
               else s1)
         else if key = Keys_Escape k then
           (if truthy (cb_open s0) then cb_closeMenu s0 else s0)
         else if key = Keys_Enter k \<or> key = Keys_Space k then
           (if truthy (cb_open s0) \<and> length rs > 0
            then if isResultDisabled_or_false p (js_index rs (cb_activeIndex s0)) then s0
                 else cb_selectIndex t p (cb_activeIndex s0) s0
            else s0)
         else if key = Keys_Home k then emit Invalidate (s0\<lparr>cb_activeIndex := 0\<rparr>)
         else if key = Keys_End k then
           emit Invalidate (s0\<lparr>cb_activeIndex := int (length rs) - 1\<rparr>)
         else s0)"

definition cb_onMenuChange :: "('r, 'd) props \<Rightarrow> 'r combobox \<Rightarrow> 'r combobox" where
  "cb_onMenuChange p s =
     (if \<not> onMenuChange p then s
      else
        (let s1 = (if truthy (cb_open s) \<and> \<not> truthy (cb_wasOpen s)
                   then emit (OnMenuChange True) s else s)
         in if \<not> truthy (cb_open s1) \<and> truthy (cb_wasOpen s1)
            then emit (OnMenuChange False) s1 else s1))"


definition cb_onResultMouseDown :: "'r combobox \<Rightarrow> 'r combobox" where
  "cb_onResultMouseDown s = (emit StopPropagation s)\<lparr>cb_ignoreBlur := Some True\<rparr>"





subsection \<open>Validity and rendering\<close>

text \<open>The getter \<open>validity\<close>: the pair \<open>{valid, message}\<close>.\<close>

definition validity :: "('r, 'd) props \<Rightarrow> bool option \<times> string option" where
  "validity p =
     (case (case valid p of None \<Rightarrow> ValidObj None None | Some v \<Rightarrow> v) of
        ValidBool b \<Rightarrow> (Some b, None)
      | ValidObj v m \<Rightarrow> (v, m))"

text \<open>
  What \<open>render\<close> returns is a tree for the framework. The model keeps the parts of it
  that depend on the interaction state: the \<open>open\<close> class of the root, \<open>aria-expanded\<close>,
  the index named by \<open>aria-activedescendant\<close>, the clear button, the helper text (its
  \<open>text\<close> and \<open>valid\<close>, or \<open>None\<close> where \<open>!this._open && ...\<close> leaves \<open>false\<close> in the
  children), and the dropdown (the \<open>activeIndex\<close> and \<open>visualFocus\<close> given to the
  listbox, or \<open>None\<close> for \<open>null\<close>).
\<close>

record view =
  view_rootOpen :: bool
  view_ariaExpanded :: bool
  view_activedescendant :: "int option"
  view_clearButton :: bool
  view_helperText :: "(string option \<times> bool option) option"
  view_menu :: "(int \<times> bool) option"

definition renderMenu :: "'r list \<Rightarrow> 'r combobox \<Rightarrow> (int \<times> bool) option" where
  "renderMenu rs s =
     (if length rs = 0 then None
      else if truthy (cb_open s) then Some (cb_activeIndex s, cb_menuHasVisualFocus s)
      else None)"

definition render :: "('r, 'd) props \<Rightarrow> 'r combobox \<Rightarrow> view \<times> 'r combobox" where
  "render p s =
     (let rs = results_or_empty p;
          (valid', message) = validity p;
          menu = renderMenu rs s;
          s1 = cb_onMenuChange p s;
          s2 = (if length rs = 0 \<and> cb_open s1 = Some True
                then emit Invalidate (s1\<lparr>cb_open := Some False\<rparr>) else s1);
          rootOpen = truthy (cb_open s2);
          s3 = s2\<lparr>cb_wasOpen := cb_open s2\<rparr>
      in (\<lparr>view_rootOpen = rootOpen,
           view_ariaExpanded = truthy (cb_open s3),
           view_activedescendant = (if truthy (cb_open s3) then Some (cb_activeIndex s3) else None),
           view_clearButton = truthy (clearable p),
           view_helperText =
             (if truthy (cb_open s3) then None
              else Some (if truthy valid' then helperText p else message, valid')),
           view_menu = menu\<rparr>,
          s3))"

subsection \<open>Events\<close>



subsection \<open>Notions the statements use\<close>

text \<open>
  How often the effect \<open>e\<close> occurs in what was appended to the trace between the state
  \<open>s\<close> and the later state \<open>s'\<close>.
\<close>

definition calls :: "'r effect \<Rightarrow> 'r combobox \<Rightarrow> 'r combobox \<Rightarrow> nat" where
  "calls e s s' = count_list (drop (length (trace s)) (trace s')) e"

text \<open>The seven key codes the handler knows are pairwise different.\<close>

definition keys_distinct :: "keys \<Rightarrow> bool" where
  "keys_distinct k =
     distinct [Keys_Up k, Keys_Down k, Keys_Escape k, Keys_Enter k, Keys_Space k,
               Keys_Home k, Keys_End k]"


text \<open>
  The value of a result in the words of the specification: the owner's value extractor
  if there is one, else the owner's label extractor, else the default string
  representation of the result. (\<open>cb_getResultValue\<close> above is the source's.)
\<close>

definition value_by_fallback ::
  "('r, 'd) template \<Rightarrow> ('r, 'd) props \<Rightarrow> 'r option \<Rightarrow> string" where
  "value_by_fallback t p r =
     (case getResultValue p of
        Some f \<Rightarrow> f r
      | None \<Rightarrow>
          (case getResultLabel p of
             Some l \<Rightarrow> dnodeString t (l r)
           | None \<Rightarrow> resultString t r))"

subsection \<open>A concrete owner\<close>

text \<open>
  For evaluation: the key codes of the DOM, results and labels that are strings (a
  string converts to itself, \<open>undefined\<close> to \<open>''undefined''\<close>), and an owner who
  supplies three results and every callback, and nothing else.
\<close>

definition example_keys :: keys where
  "example_keys = \<lparr>Keys_Up = 38, Keys_Down = 40, Keys_Escape = 27, Keys_Enter = 13,
                    Keys_Space = 32, Keys_Home = 36, Keys_End = 35\<rparr>"

definition example_template :: "(string, string) template" where
  "example_template =
     \<lparr>resultString = (\<lambda>r. case r of None \<Rightarrow> ''undefined'' | Some x \<Rightarrow> x),
      dnodeString = (\<lambda>d. d)\<rparr>"

definition example_props :: "(string, string) props" where
  "example_props =
     \<lparr>clearable = None, disabled = None, getResultLabel = None, getResultValue = None,
      helperText = None, isResultDisabled = None, onBlur = True, onFocus = True,
      onMenuChange = True, onOut = True, onOver = True, onRequestResults = True,
      onResultSelect = True, onValue = True, openOnFocus = None, readOnly = None,
      results = Some [''ant'', ''bee'', ''cat''], valid = None, value_prop = None\<rparr>"

lemmas example_defs = example_keys_def example_template_def example_props_def initial_def

section \<open>Basic facts\<close>

lemma emit_index [simp]: "cb_activeIndex (emit e s) = cb_activeIndex s"
  by (simp add: emit_def)

lemma call_index [simp]: "cb_activeIndex (call b e s) = cb_activeIndex s"
  by (simp add: call_def)

lemma closeMenu_index [simp]: "cb_activeIndex (cb_closeMenu s) = cb_activeIndex s"
  by (simp add: cb_closeMenu_def)

lemma openMenu_index [simp]: "cb_activeIndex (cb_openMenu p s) = 0"
  by (simp add: cb_openMenu_def)

lemma selectIndex_index [simp]: "cb_activeIndex (cb_selectIndex t p i s) = cb_activeIndex s"
  by (simp add: cb_selectIndex_def Let_def)

text \<open>The state \<open>render\<close> leaves: the view put aside.\<close>

lemma snd_render:
  "snd (render p s) =
     (let s1 = cb_onMenuChange p s;
          s2 = (if length (results_or_empty p) = 0 \<and> cb_open s1 = Some True
                then emit Invalidate (s1\<lparr>cb_open := Some False\<rparr>) else s1)
      in s2\<lparr>cb_wasOpen := cb_open s2\<rparr>)"
  by (simp add: render_def Let_def split_beta)

lemma onMenuChange_fields [simp]:
  "cb_open (cb_onMenuChange p s) = cb_open s"
  "cb_wasOpen (cb_onMenuChange p s) = cb_wasOpen s"
  "cb_activeIndex (cb_onMenuChange p s) = cb_activeIndex s"
  by (simp_all add: cb_onMenuChange_def emit_def Let_def)

lemma onMenuChange_trace:
  "trace (cb_onMenuChange p s) =
     trace s @ (if onMenuChange p \<and> truthy (cb_open s) \<and> \<not> truthy (cb_wasOpen s)
                then [OnMenuChange True] else [])
             @ (if onMenuChange p \<and> \<not> truthy (cb_open s) \<and> truthy (cb_wasOpen s)
                then [OnMenuChange False] else [])"
  by (simp add: cb_onMenuChange_def emit_def Let_def)

lemma onMenuChange_settled: "cb_wasOpen s = cb_open s \<Longrightarrow> cb_onMenuChange p s = s"
  by (simp add: cb_onMenuChange_def Let_def)

text \<open>
  The concrete owner clicks the arrow of a fresh widget and the widget renders: the
  menu is open, and the owner has been told so.
\<close>

lemma opened_example:
  "snd (render example_props (cb_onArrowClick example_props initial))
     = \<lparr>cb_activeIndex = 0, cb_ignoreBlur = None, cb_menuHasVisualFocus = False,
        cb_open = Some True, cb_wasOpen = Some True,
        trace = [StopPropagation, Focus, OnRequestResults, Invalidate, OnMenuChange True]\<rparr>"
  by (simp add: snd_render Let_def example_defs cb_onArrowClick_def cb_openMenu_def emit_def
      call_def truthy_def results_or_empty_def cb_onMenuChange_def)

section \<open>The menu-change notification when the results run out\<close>

text \<open>
  Claim C1. A render with no results while \<open>_open\<close> is \<open>true\<close> sets \<open>_open\<close> to
  \<open>false\<close>; the claim adds that the owner's \<open>onMenuChange\<close> is then invoked with
  \<open>false\<close> exactly once. The source calls \<open>_onMenuChange\<close> before it closes the menu
  and stores \<open>_wasOpen\<close> after: the render that closes the menu reports no close, and in
  the state it leaves \<open>_wasOpen\<close> equals \<open>_open\<close>, so that the next render changes
  nothing and reports nothing either. \<open>onMenuChange(false)\<close> is invoked zero times.
\<close>

theorem render_empty_results_never_reports_close:
  assumes "results_or_empty p = []" and "cb_open s = Some True"
  shows "cb_open (snd (render p s)) = Some False
       \<and> calls (OnMenuChange False) s (snd (render p s)) = 0
       \<and> snd (render p (snd (render p s))) = snd (render p s)"
proof -
  let ?s' = "snd (render p s)"
  have s': "?s' = (cb_onMenuChange p s)\<lparr>cb_open := Some False, cb_wasOpen := Some False,
                     trace := trace (cb_onMenuChange p s) @ [Invalidate]\<rparr>"
    using assms by (simp add: snd_render Let_def emit_def)
  have closed: "cb_open ?s' = Some False" by (simp add: s')
  have "trace ?s' = trace s @ (if onMenuChange p \<and> \<not> truthy (cb_wasOpen s)
                then [OnMenuChange True] else []) @ [Invalidate]"
    using assms(2) by (simp add: s' onMenuChange_trace truthy_def)
  then have quiet: "calls (OnMenuChange False) s ?s' = 0"
    by (simp add: calls_def)
  have "cb_wasOpen ?s' = cb_open ?s'" by (simp add: s')
  then have "cb_onMenuChange p ?s' = ?s'" by (rule onMenuChange_settled)
  then have again: "snd (render p ?s') = ?s'"
    using closed by (simp add: snd_render Let_def)
  from closed quiet again show ?thesis by simp
qed

text \<open>
  The concrete owner opens the menu on three results (and is told \<open>true\<close>), then passes
  no results: two renders later the menu is closed and the trace holds no
  \<open>OnMenuChange False\<close>.
\<close>

theorem render_empty_results_never_reports_close_witness:
  "results_or_empty (example_props\<lparr>results := Some []\<rparr>) = []
   \<and> cb_open (snd (render example_props (cb_onArrowClick example_props initial))) = Some True
   \<and> cb_open (snd (render (example_props\<lparr>results := Some []\<rparr>)
        (snd (render example_props (cb_onArrowClick example_props initial))))) = Some False
   \<and> calls (OnMenuChange False)
        (snd (render example_props (cb_onArrowClick example_props initial)))
        (snd (render (example_props\<lparr>results := Some []\<rparr>)
          (snd (render example_props (cb_onArrowClick example_props initial))))) = 0
   \<and> trace (snd (render (example_props\<lparr>results := Some []\<rparr>)
        (snd (render (example_props\<lparr>results := Some []\<rparr>)
          (snd (render example_props (cb_onArrowClick example_props initial)))))))
       = [StopPropagation, Focus, OnRequestResults, Invalidate, OnMenuChange True, Invalidate]"
proof -
  let ?p0 = "example_props\<lparr>results := Some []\<rparr>"
  let ?s = "snd (render example_props (cb_onArrowClick example_props initial))"
  have e: "results_or_empty ?p0 = []"
    by (simp add: results_or_empty_def)
  have o: "cb_open ?s = Some True"
    by (simp add: opened_example)
  have t: "trace (snd (render ?p0 ?s))
       = [StopPropagation, Focus, OnRequestResults, Invalidate, OnMenuChange True, Invalidate]"
    unfolding opened_example
    by (simp add: snd_render Let_def e cb_onMenuChange_def truthy_def emit_def)
  show ?thesis
    using render_empty_results_never_reports_close [OF e o] e o t
    by simp
qed

section \<open>The range of the active index\<close>












section \<open>The keys the handler does not know\<close>

text \<open>
  Claim C3, as amended. The claim has a key other than Up, Down, Escape, Enter, Space,
  Home and End change no state at all, and likewise Escape on a closed menu. The
  handler sets \<open>_menuHasVisualFocus\<close> to \<open>true\<close> before it looks at the key. So: such
  a key, and Escape on a closed menu, leave the open flag, \<open>wasOpen\<close>, \<open>activeIndex\<close>
  and the ignore-blur flag as they were and have no effect on the outside (the trace is
  the same), and set the visual-focus flag to \<open>true\<close>.
\<close>

theorem other_key_sets_only_visual_focus:
  "(key \<notin> {Keys_Up k, Keys_Down k, Keys_Escape k, Keys_Enter k, Keys_Space k,
             Keys_Home k, Keys_End k}
      \<longrightarrow> cb_onInputKey k t p key s = s\<lparr>cb_menuHasVisualFocus := True\<rparr>)
   \<and> (keys_distinct k \<and> \<not> truthy (cb_open s)
      \<longrightarrow> cb_onInputKey k t p (Keys_Escape k) s = s\<lparr>cb_menuHasVisualFocus := True\<rparr>)"
  by (simp add: cb_onInputKey_def Let_def keys_distinct_def)

theorem other_key_sets_only_visual_focus_witness:
  "cb_onInputKey example_keys example_template example_props 65 initial
     = initial\<lparr>cb_menuHasVisualFocus := True\<rparr>
   \<and> cb_onInputKey example_keys example_template example_props 27
       (initial\<lparr>cb_open := Some False\<rparr>)
     = initial\<lparr>cb_open := Some False, cb_menuHasVisualFocus := True\<rparr>"
  using other_key_sets_only_visual_focus
      [where key = 65 and k = example_keys and t = example_template and p = example_props
         and s = initial]
    other_key_sets_only_visual_focus
      [where key = 65 and k = example_keys and t = example_template and p = example_props
         and s = "initial\<lparr>cb_open := Some False\<rparr>"]
  by (simp add: example_defs keys_distinct_def truthy_def)

text \<open>
  On a fresh widget the visual-focus flag is \<open>false\<close>; the key \<open>65\<close>, and Escape on
  the closed menu, make it \<open>true\<close>.
\<close>

theorem other_key_changes_state_counterexample:
  "(65::int) \<notin> {Keys_Up example_keys, Keys_Down example_keys, Keys_Escape example_keys,
       Keys_Enter example_keys, Keys_Space example_keys, Keys_Home example_keys,
       Keys_End example_keys}
   \<and> cb_menuHasVisualFocus (cb_onInputKey example_keys example_template example_props 65 initial)
       \<noteq> cb_menuHasVisualFocus (initial :: string combobox)
   \<and> \<not> truthy (cb_open (initial :: string combobox))
   \<and> cb_menuHasVisualFocus
         (cb_onInputKey example_keys example_template example_props (Keys_Escape example_keys) initial)
       \<noteq> cb_menuHasVisualFocus (initial :: string combobox)"
  by (simp add: example_defs cb_onInputKey_def Let_def truthy_def)

section \<open>Opening the menu with the Down key\<close>

text \<open>
  Claim C4. With the menu closed and \<open>disabled\<close> and \<open>readOnly\<close> both not set, the
  Down key opens the menu, puts \<open>activeIndex\<close> at \<open>0\<close> and invokes \<open>onRequestResults\<close>
  once (an owner who supplies no such callback is not called).
\<close>

theorem down_key_opens_closed_menu:
  assumes "Keys_Down k \<noteq> Keys_Up k"
    and "\<not> truthy (cb_open s)" and "\<not> truthy (disabled p)" and "\<not> truthy (readOnly p)"
  shows "cb_open (cb_onInputKey k t p (Keys_Down k) s) = Some True
       \<and> cb_activeIndex (cb_onInputKey k t p (Keys_Down k) s) = 0
       \<and> calls OnRequestResults s (cb_onInputKey k t p (Keys_Down k) s)
           = (if onRequestResults p then 1 else 0)"
  using assms
  by (simp add: cb_onInputKey_def cb_openMenu_def emit_def call_def Let_def calls_def)

theorem down_key_opens_closed_menu_witness:
  "cb_open (cb_onInputKey example_keys example_template example_props 40 initial) = Some True
   \<and> cb_activeIndex (cb_onInputKey example_keys example_template example_props 40
        (initial\<lparr>cb_activeIndex := 2\<rparr>)) = 0
   \<and> calls OnRequestResults initial
        (cb_onInputKey example_keys example_template example_props 40 initial) = 1"
  using down_key_opens_closed_menu
      [where k = example_keys and s = initial and p = example_props and t = example_template]
    down_key_opens_closed_menu
      [where k = example_keys and s = "initial\<lparr>cb_activeIndex := 2\<rparr>" and p = example_props
         and t = example_template]
  by (simp add: example_defs truthy_def)

section \<open>Moving the active index around the results\<close>

lemma move_increase_index:
  assumes "length (results_or_empty p) > 0" "0 \<le> cb_activeIndex s"
    "cb_activeIndex s < int (length (results_or_empty p))"
  shows "cb_activeIndex (cb_moveActiveIndex p increase s)
         = (cb_activeIndex s + 1) mod int (length (results_or_empty p))"
  using assms by (simp add: cb_moveActiveIndex_def Let_def js_rem_def)

lemma move_decrease_index:
  assumes "length (results_or_empty p) > 0" "0 \<le> cb_activeIndex s"
    "cb_activeIndex s < int (length (results_or_empty p))"
  shows "cb_activeIndex (cb_moveActiveIndex p decrease s)
         = (cb_activeIndex s - 1) mod int (length (results_or_empty p))"
  using assms by (simp add: cb_moveActiveIndex_def Let_def js_rem_def)

lemma move_increase_funpow:
  assumes "length (results_or_empty p) > 0" "0 \<le> cb_activeIndex s"
    "cb_activeIndex s < int (length (results_or_empty p))"
  shows "cb_activeIndex ((cb_moveActiveIndex p increase ^^ n) s)
         = (cb_activeIndex s + int n) mod int (length (results_or_empty p))"
proof (induction n)
  case 0
  from assms show ?case by simp
next
  case (Suc n)
  let ?N = "int (length (results_or_empty p))"
  let ?s = "(cb_moveActiveIndex p increase ^^ n) s"
  have pos: "0 < ?N" using assms(1) by simp
  have "0 \<le> cb_activeIndex ?s" "cb_activeIndex ?s < ?N"
    using Suc pos by simp_all
  then have "cb_activeIndex (cb_moveActiveIndex p increase ?s) = (cb_activeIndex ?s + 1) mod ?N"
    using assms(1) by (rule_tac move_increase_index) simp_all
  also have "\<dots> = (cb_activeIndex s + int n + 1) mod ?N"
    by (simp add: Suc mod_add_left_eq)
  finally show ?case by (simp add: ac_simps)
qed

text \<open>
  Claim C5. With \<open>N \<ge> 1\<close> results and \<open>activeIndex = i\<close> in \<open>[0, N-1]\<close>: \<open>N\<close>
  increase moves bring \<open>activeIndex\<close> back to \<open>i\<close>; one decrease move from \<open>0\<close>
  gives \<open>N-1\<close>; one increase move from \<open>N-1\<close> gives \<open>0\<close>.
\<close>

theorem moveActiveIndex_wraparound:
  assumes "length (results_or_empty p) = N" and "1 \<le> N" and "0 \<le> i" and "i < int N"
  shows "cb_activeIndex ((cb_moveActiveIndex p increase ^^ N) (s\<lparr>cb_activeIndex := i\<rparr>)) = i
       \<and> cb_activeIndex (cb_moveActiveIndex p decrease (s\<lparr>cb_activeIndex := 0\<rparr>)) = int N - 1
       \<and> cb_activeIndex (cb_moveActiveIndex p increase (s\<lparr>cb_activeIndex := int N - 1\<rparr>)) = 0"
proof -
  have pos: "0 < length (results_or_empty p)" using assms(1,2) by linarith
  have "cb_activeIndex ((cb_moveActiveIndex p increase ^^ N) (s\<lparr>cb_activeIndex := i\<rparr>))
        = (i + int N) mod int N"
    using move_increase_funpow [of p "s\<lparr>cb_activeIndex := i\<rparr>" N] pos assms by simp
  also have "\<dots> = i" using assms(3,4) by simp
  finally have cycle:
    "cb_activeIndex ((cb_moveActiveIndex p increase ^^ N) (s\<lparr>cb_activeIndex := i\<rparr>)) = i" .
  have "cb_activeIndex (cb_moveActiveIndex p decrease (s\<lparr>cb_activeIndex := 0\<rparr>))
        = (- 1) mod int N"
    using move_decrease_index [of p "s\<lparr>cb_activeIndex := 0\<rparr>"] pos assms(1) by simp
  also have "\<dots> = int N - 1" using assms(2) by (simp add: zmod_minus1)
  finally have dec:
    "cb_activeIndex (cb_moveActiveIndex p decrease (s\<lparr>cb_activeIndex := 0\<rparr>)) = int N - 1" .
  have inc: "cb_activeIndex (cb_moveActiveIndex p increase (s\<lparr>cb_activeIndex := int N - 1\<rparr>)) = 0"
    using move_increase_index [of p "s\<lparr>cb_activeIndex := int N - 1\<rparr>"] pos assms(1,2) by simp
  from cycle dec inc show ?thesis by simp
qed

theorem moveActiveIndex_wraparound_witness:
  "cb_activeIndex
     ((cb_moveActiveIndex example_props increase ^^ 3)
        ((initial :: string combobox)\<lparr>cb_activeIndex := 1\<rparr>)) = 1
   \<and> cb_activeIndex
       (cb_moveActiveIndex example_props decrease
          ((initial :: string combobox)\<lparr>cb_activeIndex := 0\<rparr>)) = 2
   \<and> cb_activeIndex
       (cb_moveActiveIndex example_props increase
          ((initial :: string combobox)\<lparr>cb_activeIndex := 2\<rparr>)) = 0"
proof -
  have n: "length (results_or_empty example_props) = 3"
    by (simp add: example_defs results_or_empty_def)
  show ?thesis
    using moveActiveIndex_wraparound [OF n, of 1 "initial :: string combobox"]
    by simp
qed

section \<open>Enter and Space on a disabled result\<close>

text \<open>
  Claim C6. The menu is open, there are results, and the owner's \<open>isResultDisabled\<close>
  holds of \<open>results[activeIndex]\<close>: Enter and Space invoke neither \<open>onResultSelect\<close>
  nor \<open>onValue\<close> (with any argument; the trace is as it was) and leave the open flag
  as it was.
\<close>

theorem enter_on_disabled_result_is_ignored:
  assumes "keys_distinct k" and "key = Keys_Enter k \<or> key = Keys_Space k"
    and "truthy (cb_open s)" and "results_or_empty p \<noteq> []"
    and "isResultDisabled p = Some f"
    and "f (js_index (results_or_empty p) (cb_activeIndex s))"
  shows "calls (OnResultSelect r) s (cb_onInputKey k t p key s) = 0
       \<and> calls (OnValue v) s (cb_onInputKey k t p key s) = 0
       \<and> trace (cb_onInputKey k t p key s) = trace s
       \<and> cb_open (cb_onInputKey k t p key s) = cb_open s"
proof -
  have "key \<noteq> Keys_Up k" "key \<noteq> Keys_Down k" "key \<noteq> Keys_Escape k"
    using assms(1,2) by (auto simp: keys_distinct_def)
  then have "cb_onInputKey k t p key s = s\<lparr>cb_menuHasVisualFocus := True\<rparr>"
    using assms(2-6)
    by (simp add: cb_onInputKey_def Let_def isResultDisabled_or_false_def)
  then show ?thesis by (simp add: calls_def)
qed

text \<open>The owner disables \<open>''bee''\<close>, the second result, which is the active one.\<close>

theorem enter_on_disabled_result_is_ignored_witness:
  "trace (cb_onInputKey example_keys example_template
            (example_props\<lparr>isResultDisabled := Some (\<lambda>r. r = Some ''bee'')\<rparr>) 13
            (initial\<lparr>cb_open := Some True, cb_activeIndex := 1\<rparr>)) = []
   \<and> cb_open (cb_onInputKey example_keys example_template
            (example_props\<lparr>isResultDisabled := Some (\<lambda>r. r = Some ''bee'')\<rparr>) 32
            (initial\<lparr>cb_open := Some True, cb_activeIndex := 1\<rparr>)) = Some True"
  using enter_on_disabled_result_is_ignored
      [where k = example_keys and key = 13 and t = example_template
         and s = "initial\<lparr>cb_open := Some True, cb_activeIndex := 1\<rparr>"
         and p = "example_props\<lparr>isResultDisabled := Some (\<lambda>r. r = Some ''bee'')\<rparr>"
         and f = "\<lambda>r. r = Some ''bee''"]
    enter_on_disabled_result_is_ignored
      [where k = example_keys and key = 32 and t = example_template
         and s = "initial\<lparr>cb_open := Some True, cb_activeIndex := 1\<rparr>"
         and p = "example_props\<lparr>isResultDisabled := Some (\<lambda>r. r = Some ''bee'')\<rparr>"
         and f = "\<lambda>r. r = Some ''bee''"]
  by (simp add: example_defs truthy_def keys_distinct_def results_or_empty_def js_index_def)

section \<open>The blur that follows a mouse-down on a result\<close>

text \<open>
  Claim C7. A mouse-down on a result sets the ignore-blur flag. The next blur of the
  input invokes no \<open>onBlur\<close> and leaves the open flag as it was (it has no effect on the
  outside at all), and it clears the flag. The blur after that invokes \<open>onBlur\<close> (when
  the owner supplies it) and closes the menu.
\<close>

theorem mouse_down_swallows_one_blur:
  "cb_ignoreBlur (cb_onResultMouseDown s) = Some True
   \<and> calls OnBlur (cb_onResultMouseDown s) (cb_onInputBlur p (cb_onResultMouseDown s)) = 0
   \<and> trace (cb_onInputBlur p (cb_onResultMouseDown s)) = trace (cb_onResultMouseDown s)
   \<and> cb_open (cb_onInputBlur p (cb_onResultMouseDown s)) = cb_open s
   \<and> cb_ignoreBlur (cb_onInputBlur p (cb_onResultMouseDown s)) = Some False
   \<and> trace (cb_onInputBlur p (cb_onInputBlur p (cb_onResultMouseDown s)))
       = trace (cb_onInputBlur p (cb_onResultMouseDown s))
           @ (if onBlur p then [OnBlur] else []) @ [Invalidate]
   \<and> cb_open (cb_onInputBlur p (cb_onInputBlur p (cb_onResultMouseDown s))) = Some False"
  by (simp add: cb_onResultMouseDown_def cb_onInputBlur_def cb_closeMenu_def emit_def
      call_def truthy_def calls_def)

theorem mouse_down_swallows_one_blur_witness:
  "trace (cb_onInputBlur example_props
       (cb_onResultMouseDown (initial\<lparr>cb_open := Some True\<rparr>))) = [StopPropagation]
   \<and> cb_open (cb_onInputBlur example_props
       (cb_onResultMouseDown (initial\<lparr>cb_open := Some True\<rparr>))) = Some True
   \<and> trace (cb_onInputBlur example_props (cb_onInputBlur example_props
       (cb_onResultMouseDown (initial\<lparr>cb_open := Some True\<rparr>))))
       = [StopPropagation, OnBlur, Invalidate]
   \<and> cb_open (cb_onInputBlur example_props (cb_onInputBlur example_props
       (cb_onResultMouseDown (initial\<lparr>cb_open := Some True\<rparr>)))) = Some False"
  using mouse_down_swallows_one_blur
    [where s = "initial\<lparr>cb_open := Some True\<rparr>" and p = example_props]
  by (simp add: example_defs cb_onResultMouseDown_def emit_def)

section \<open>Selecting a result\<close>

lemma getResultValue_fallback: "cb_getResultValue t p r = value_by_fallback t p r"
  by (simp add: cb_getResultValue_def value_by_fallback_def split: option.splits)

text \<open>
  Claim C8. Selecting the index \<open>i\<close> closes the menu, invokes \<open>onResultSelect\<close> with
  \<open>results[i]\<close> and \<open>onValue\<close> with the value the fallback chain of the
  specification gives (each when the owner supplies the callback, and after \<open>focus\<close>
  and \<open>invalidate\<close>); \<open>_getResultValue\<close> computes that chain; with no value
  extractor and a label extractor \<open>l\<close> the value is \<open>l (results[i])\<close> as a string.
\<close>

theorem selectIndex_closes_and_reports:
  "cb_selectIndex t p i s =
     s\<lparr>cb_open := Some False,
       trace := trace s @ [Focus, Invalidate]
         @ (if onResultSelect p then [OnResultSelect (js_index (results_or_empty p) i)] else [])
         @ (if onValue p
            then [OnValue (value_by_fallback t p (js_index (results_or_empty p) i))] else [])\<rparr>
   \<and> cb_getResultValue t p r = value_by_fallback t p r
   \<and> (getResultValue p = None \<and> getResultLabel p = Some l \<longrightarrow>
        cb_getResultValue t p (js_index (results_or_empty p) i)
          = dnodeString t (l (js_index (results_or_empty p) i)))"
  by (simp add: cb_selectIndex_def cb_closeMenu_def emit_def call_def Let_def
      getResultValue_fallback value_by_fallback_def)

text \<open>The owner labels a result by appending \<open>''!''\<close> and gives no value extractor.\<close>

theorem selectIndex_closes_and_reports_witness:
  "cb_selectIndex example_template
      (example_props\<lparr>getResultLabel := Some (\<lambda>r. case r of None \<Rightarrow> ''-'' | Some x \<Rightarrow> x @ ''!'')\<rparr>)
      1 (initial\<lparr>cb_open := Some True\<rparr>)
    = initial\<lparr>cb_open := Some False,
        trace := [Focus, Invalidate, OnResultSelect (Some ''bee''), OnValue ''bee!'']\<rparr>"
  using selectIndex_closes_and_reports
    [where t = example_template
       and p = "example_props\<lparr>getResultLabel :=
                  Some (\<lambda>r. case r of None \<Rightarrow> ''-'' | Some x \<Rightarrow> x @ ''!'')\<rparr>"
       and i = 1 and s = "initial\<lparr>cb_open := Some True\<rparr>" and r = None
       and l = "\<lambda>r. case r of None \<Rightarrow> ''-'' | Some x \<Rightarrow> x @ ''!''"]
  by (simp add: example_defs results_or_empty_def js_index_def value_by_fallback_def)

section \<open>Validity and the helper text\<close>

text \<open>
  Claim C9. \<open>validity\<close> gives \<open>(b, undefined)\<close> for a boolean \<open>b\<close>, the two fields of
  a structured value, and \<open>(undefined, undefined)\<close> when the property is absent. The
  helper text is in the rendered tree exactly when the open flag, as the render leaves
  it, is not \<open>true\<close> (it is \<open>false\<close>, or \<open>undefined\<close> on a widget that never opened).
  The render reads the flag after it has closed a menu without results: in terms of the
  state it starts from, the helper text is rendered when the flag is not \<open>true\<close> or
  there are no results.
\<close>

theorem validity_normalises:
  "validity (p\<lparr>valid := Some (ValidBool b)\<rparr>) = (Some b, None)
   \<and> validity (p\<lparr>valid := Some (ValidObj v m)\<rparr>) = (v, m)
   \<and> validity (p\<lparr>valid := None\<rparr>) = (None, None)
   \<and> (view_helperText (fst (render p s)) \<noteq> None)
       = (\<not> truthy (cb_open (snd (render p s))))
   \<and> (view_helperText (fst (render p s)) \<noteq> None)
       = (\<not> truthy (cb_open s) \<or> results_or_empty p = [])"
  by (auto simp add: validity_def render_def Let_def truthy_def emit_def split: prod.splits)

theorem validity_normalises_witness:
  "validity (example_props\<lparr>valid := Some (ValidBool False)\<rparr>) = (Some False, None)
   \<and> validity (example_props\<lparr>valid := Some (ValidObj (Some False) (Some ''bad''))\<rparr>)
       = (Some False, Some ''bad'')
   \<and> validity (example_props\<lparr>valid := None\<rparr>) = (None, None)
   \<and> view_helperText (fst (render example_props (initial\<lparr>cb_open := Some True\<rparr>))) = None
   \<and> view_helperText (fst (render example_props initial)) = Some (None, None)"
  using validity_normalises [where p = example_props and b = False and v = "Some False"
      and m = "Some ''bad''" and s = "initial\<lparr>cb_open := Some True\<rparr>"]
    validity_normalises [where p = example_props and b = False and v = "Some False"
      and m = "Some ''bad''" and s = initial]
  by (simp add: example_defs render_def Let_def validity_def truthy_def cb_onMenuChange_def
      emit_def results_or_empty_def split: prod.splits)

section \<open>Typing in the input\<close>

text \<open>
  Claim C10. A change of the input's value invokes \<open>onValue\<close> with the new value (when
  the owner supplies it) and, when \<open>disabled\<close> and \<open>readOnly\<close> are both not set, opens
  the menu: \<open>activeIndex\<close> becomes \<open>0\<close>, the open flag \<open>true\<close>, and
  \<open>onRequestResults\<close> is invoked. Otherwise the menu and the index stay as they were.
\<close>

theorem onInputValue_reports_and_opens:
  "trace (cb_onInputValue p v s) =
     trace s @ (if onValue p then [OnValue v] else []) @
       (if \<not> truthy (disabled p) \<and> \<not> truthy (readOnly p)
        then (if onRequestResults p then [OnRequestResults] else []) @ [Invalidate]
        else [])
   \<and> (if \<not> truthy (disabled p) \<and> \<not> truthy (readOnly p)
      then cb_open (cb_onInputValue p v s) = Some True \<and> cb_activeIndex (cb_onInputValue p v s) = 0
      else cb_open (cb_onInputValue p v s) = cb_open s
         \<and> cb_activeIndex (cb_onInputValue p v s) = cb_activeIndex s)"
  by (simp add: cb_onInputValue_def cb_openMenu_def emit_def call_def Let_def)

theorem onInputValue_reports_and_opens_witness:
  "trace (cb_onInputValue example_props ''be'' initial)
     = [OnValue ''be'', OnRequestResults, Invalidate]
   \<and> cb_open (cb_onInputValue example_props ''be'' initial) = Some True
   \<and> cb_activeIndex (cb_onInputValue example_props ''be'' (initial\<lparr>cb_activeIndex := 2\<rparr>)) = 0"
  using onInputValue_reports_and_opens [where p = example_props and v = "''be''" and s = initial]
    onInputValue_reports_and_opens
      [where p = example_props and v = "''be''" and s = "initial\<lparr>cb_activeIndex := 2\<rparr>"]
  by (simp add: example_defs truthy_def)

end
